theory Spec2Isabelle
  imports Main
begin

section \<open>The SleepIQ component (homeassistant/components/sleepiq)\<close>

text \<open>
  A shallow embedding of \<^verbatim>\<open>homeassistant/components/sleepiq/__init__.py\<close>: the
  module constants, the shared cache \<^verbatim>\<open>SleepIQData\<close>, the entity base class
  \<^verbatim>\<open>SleepIQSensor\<close> and the component entry point. Mutation is explicit state
  passing, a raised exception is the \<open>Inl\<close> branch of a sum, and every effect on the
  outside world (a call of the vendor client, a log entry, a platform load) is an
  \<open>event\<close> appended to the list a function returns.
\<close>

subsection \<open>Module constants\<close>

text \<open>
  A \<^verbatim>\<open>timedelta\<close> and a \<^verbatim>\<open>datetime\<close> are whole numbers of microseconds, so
  both are integers here.
\<close>

definition timedelta_seconds :: "int \<Rightarrow> int" where
  "timedelta_seconds n = n * 1000000"

definition DOMAIN :: string where
  "DOMAIN = ''sleepiq''"

definition MIN_TIME_BETWEEN_UPDATES :: int where
  "MIN_TIME_BETWEEN_UPDATES = timedelta_seconds 30"

definition IS_IN_BED :: string where
  "IS_IN_BED = ''is_in_bed''"

definition SLEEP_NUMBER :: string where
  "SLEEP_NUMBER = ''sleep_number''"

definition SENSOR_TYPES :: "(string \<times> string) list" where
  "SENSOR_TYPES = [(SLEEP_NUMBER, ''SleepNumber''), (IS_IN_BED, ''Is In Bed'')]"

definition LEFT :: string where
  "LEFT = ''left''"

definition RIGHT :: string where
  "RIGHT = ''right''"

definition SIDES :: "string list" where
  "SIDES = [LEFT, RIGHT]"

subsection \<open>Exceptions\<close>

text \<open>
  One constructor for each exception class the module names; a constructor stands for
  the class and its subclasses, since an \<^verbatim>\<open>except\<close> clause catches both.
  \<open>ConnectionError\<close> is \<^verbatim>\<open>requests.exceptions.ConnectionError\<close>, which the
  module imports over the builtin of the same name. \<open>KeyError\<close> is what a dictionary
  subscript raises on a missing key, and \<open>OtherError\<close> is any exception that no
  handler of the module names.
\<close>

datatype exn =
    ConnectionError string
  | AttributeError string
  | ValueError string
  | UnknownUser string
  | PlatformNotReady exn
  | KeyError string
  | OtherError string

subsection \<open>What the vendor client returns\<close>

record sleeper =
  first_name :: string

record side =
  is_in_bed :: bool
  sleep_number :: int
  alert_id :: int
  alert_detailed_message :: string
  sleeper :: sleeper

record bed =
  bed_id :: string
  bed_name :: string
  bed_mac_address :: string
  bed_model :: string
  bed_sku :: string
  bed_generation :: string
  bed_purchase_date :: string
  bed_registration_date :: string
  bed_size :: string
  bed_left :: side
  bed_right :: side

text \<open>
  \<^verbatim>\<open>getattr(self.bed, self._side)\<close>: the two names of \<open>SIDES\<close> select a side
  snapshot. Any other name does not denote a side, and the lookup is modelled as the
  \<open>AttributeError\<close> of an attribute the snapshot does not have.
\<close>

definition getattr_side :: "bed \<Rightarrow> string \<Rightarrow> exn + side" where
  "getattr_side b s =
     (if s = ''left'' then Inr (bed_left b)
      else if s = ''right'' then Inr (bed_right b)
      else Inl (AttributeError s))"

text \<open>
  The vendor client is outside the module. One \<open>vendor_reply\<close> is what the client does
  during one pass through the \<^verbatim>\<open>with redirect_stdout(client_output)\<close> block: the text
  \<^verbatim>\<open>login()\<close> prints and the exception it raises, if any, then the text
  \<^verbatim>\<open>beds_with_sleeper_status()\<close> prints and its exception or its list of beds.
\<close>

record vendor_reply =
  login_stdout :: string
  login_raises :: "exn option"
  beds_stdout :: string
  beds_result :: "exn + bed list"

record Sleepyq =
  username :: string
  password :: string

datatype event =
    Login
  | BedsWithSleeperStatus
  | LogWarning string
  | LogDebug string
  | LoadPlatform string string

text \<open>
  The body of the \<^verbatim>\<open>with\<close> block: the outcome of the two client calls, the text
  captured from standard output, and the calls made. A raising \<^verbatim>\<open>login()\<close> ends
  the block before the second call.
\<close>

definition client_calls :: "vendor_reply \<Rightarrow> (exn + bed list) \<times> string \<times> event list" where
  "client_calls r =
     (case login_raises r of
        Some e \<Rightarrow> (Inl e, login_stdout r, [Login])
      | None \<Rightarrow> (beds_result r, login_stdout r @ beds_stdout r, [Login, BedsWithSleeperStatus]))"

subsection \<open>SleepIQData\<close>

text \<open>
  The object's fields, and \<open>throttle\<close>: the time of the last call the throttle let
  through to completion, which the decorator keeps on the object.
\<close>

record SleepIQData =
  client :: Sleepyq
  beds :: "string \<rightharpoonup> bed"
  throttle :: "int option"

text \<open>\<^verbatim>\<open>{bed.bed_id: bed for bed in beds}\<close>: a later bed replaces an earlier one of
  the same identifier.\<close>

fun beds_by_id :: "(string \<rightharpoonup> bed) \<Rightarrow> bed list \<Rightarrow> (string \<rightharpoonup> bed)" where
  "beds_by_id m [] = m"
| "beds_by_id m (b # bs) = beds_by_id (m(bed_id b \<mapsto> b)) bs"

text \<open>The triple-quoted message of the \<^verbatim>\<open>ValueError\<close> handler, with its line break
  and indentation.\<close>

definition login_failed_message :: string where
  "login_failed_message =
     [CHR 0x0A] @ replicate 16 (CHR '' '')
     @ ''SleepIQ login failed. Double-check your username and password.''
     @ [CHR 0x0A] @ replicate 12 (CHR '' '')"

text \<open>
  The three \<^verbatim>\<open>except\<close> clauses of \<^verbatim>\<open>update\<close>, in their order: the exception
  that leaves the \<^verbatim>\<open>try\<close> statement and the object after the handler ran. An
  exception that no clause names propagates and the bed mapping keeps its value.
\<close>

fun update_except :: "exn \<Rightarrow> SleepIQData \<Rightarrow> exn \<times> SleepIQData" where
  "update_except (ConnectionError m) d = (ConnectionError m, d\<lparr>beds := Map.empty\<rparr>)"
| "update_except (AttributeError m) d =
     (ConnectionError ''SleepIQ API unavailable'', d\<lparr>beds := Map.empty\<rparr>)"
| "update_except (ValueError m) d = (UnknownUser login_failed_message, d\<lparr>beds := Map.empty\<rparr>)"
| "update_except e d = (e, d)"

text \<open>The \<^verbatim>\<open>finally\<close> clause: the captured text, if any, as one warning.\<close>

definition update_finally :: "string \<Rightarrow> event list" where
  "update_finally client_output =
     (if length client_output > 0 then [LogWarning client_output] else [])"

text \<open>
  The method \<^verbatim>\<open>update\<close> as written, before the decorator is applied. The
  \<^verbatim>\<open>finally\<close> clause runs after the handler and before the exception leaves.
\<close>

definition SleepIQData_update_body ::
    "vendor_reply \<Rightarrow> SleepIQData \<Rightarrow> (exn + unit) \<times> SleepIQData \<times> event list" where
  "SleepIQData_update_body r d =
     (case client_calls r of
        (Inl e, client_output, calls) \<Rightarrow>
          (Inl (fst (update_except e d)), snd (update_except e d),
           calls @ update_finally client_output)
      | (Inr bs, client_output, calls) \<Rightarrow>
          (Inr (),
           d\<lparr>beds := beds_by_id Map.empty bs\<rparr>,
           calls @ update_finally client_output
             @ (if beds d = Map.empty then [LogDebug ''Connected to SleepIQ.''] else [])))"

text \<open>
  Modelled from the spec: the decorator \<^verbatim>\<open>homeassistant.util.Throttle\<close> is imported
  by the module and its source is not part of it. The specification says of the
  decorated method that it "performs network login + fetch, unless fewer than the
  minimum interval (30s) have elapsed since the last successful invocation, in which
  case it is a no-op (the throttle swallows the call silently, returning previously
  cached state without error)", that the gate is "time since last successful call
  \<ge> interval", and that the stored time is compared "against the current clock at
  entry". So a call is swallowed exactly when an earlier call went through without
  raising and fewer than \<open>min_time\<close> microseconds have passed since; a call that is let
  through and returns stores its time, and a call that raises stores nothing.
\<close>

definition throttled :: "int \<Rightarrow> int \<Rightarrow> int option \<Rightarrow> bool" where
  "throttled min_time now stored =
     (case stored of None \<Rightarrow> False | Some t \<Rightarrow> now - t < min_time)"

text \<open>
  Modelled from the spec: the decorator itself, as described above. A swallowed call
  returns "previously cached state without error" and runs nothing of the method; an
  exception of the method leaves through the decorator unchanged.
\<close>

definition Throttle ::
    "int \<Rightarrow> (SleepIQData \<Rightarrow> (exn + unit) \<times> SleepIQData \<times> event list)
       \<Rightarrow> int \<Rightarrow> SleepIQData \<Rightarrow> (exn + unit) \<times> SleepIQData \<times> event list" where
  "Throttle min_time method now d =
     (if throttled min_time now (throttle d) then (Inr (), d, [])
      else case method d of
             (Inl e, d', ev) \<Rightarrow> (Inl e, d', ev)
           | (Inr v, d', ev) \<Rightarrow> (Inr v, d'\<lparr>throttle := Some now\<rparr>, ev))"

text \<open>\<^verbatim>\<open>@Throttle(MIN_TIME_BETWEEN_UPDATES) def update(self)\<close>, called at time
  \<open>now\<close> with \<open>r\<close> what the vendor does if it is called.\<close>

definition SleepIQData_update ::
    "int \<Rightarrow> vendor_reply \<Rightarrow> SleepIQData \<Rightarrow> (exn + unit) \<times> SleepIQData \<times> event list" where
  "SleepIQData_update now r d =
     Throttle MIN_TIME_BETWEEN_UPDATES (SleepIQData_update_body r) now d"

text \<open>\<^verbatim>\<open>__init__\<close>: the fields, then a first \<^verbatim>\<open>update\<close>; when that raises, no
  object comes back.\<close>

definition SleepIQData_init ::
    "int \<Rightarrow> vendor_reply \<Rightarrow> Sleepyq \<Rightarrow> (exn + SleepIQData) \<times> event list" where
  "SleepIQData_init now r c =
     (case SleepIQData_update now r \<lparr>client = c, beds = Map.empty, throttle = None\<rparr> of
        (Inl e, d, ev) \<Rightarrow> (Inl e, ev)
      | (Inr v, d, ev) \<Rightarrow> (Inr d, ev))"

subsection \<open>The component entry point\<close>

record config =
  conf_username :: string
  conf_password :: string

text \<open>\<^verbatim>\<open>except (ConnectionError, UnknownUser) as e: raise PlatformNotReady(e)\<close>\<close>

fun setup_except :: "exn \<Rightarrow> exn" where
  "setup_except (ConnectionError m) = PlatformNotReady (ConnectionError m)"
| "setup_except (UnknownUser m) = PlatformNotReady (UnknownUser m)"
| "setup_except e = e"

text \<open>
  The function \<^verbatim>\<open>setup(hass, config)\<close>. The constructor runs at time \<open>t0\<close> and
  the explicit \<^verbatim>\<open>DATA.update()\<close> at time \<open>t1\<close>; \<open>r0\<close> and \<open>r1\<close> are what the vendor
  does if it is called then. \<open>DATA\<close> is the module global before the call, and the
  second component of the result is the global after it.
\<close>

definition sleepiq_setup ::
    "int \<Rightarrow> vendor_reply \<Rightarrow> int \<Rightarrow> vendor_reply \<Rightarrow> config \<Rightarrow> SleepIQData option
       \<Rightarrow> (exn + bool) \<times> SleepIQData option \<times> event list" where
  "sleepiq_setup t0 r0 t1 r1 cfg DATA =
     (case SleepIQData_init t0 r0 \<lparr>username = conf_username cfg, password = conf_password cfg\<rparr> of
        (Inl e, ev) \<Rightarrow> (Inl (setup_except e), DATA, ev)
      | (Inr d, ev) \<Rightarrow>
          (case SleepIQData_update t1 r1 d of
             (Inl e, d', ev') \<Rightarrow> (Inl (setup_except e), Some d', ev @ ev')
           | (Inr v, d', ev') \<Rightarrow>
               (Inr True, Some d',
                ev @ ev' @ [LoadPlatform ''sensor'' DOMAIN, LoadPlatform ''binary_sensor'' DOMAIN])))"

subsection \<open>SleepIQSensor\<close>

record device_info =
  info_identifiers :: "(string \<times> string) set"
  info_name :: string
  info_bed_id :: string
  info_mac_address :: string
  info_model :: string
  info_sku :: string
  info_generation :: string
  info_purchase_date :: string
  info_registration_date :: string
  info_size :: string
  info_side :: string

datatype attribute =
    BedInfo device_info
  | Alerts int string
  | Sleeper string

text \<open>
  The fields of the entity. \<open>priv_x\<close> is the attribute \<^verbatim>\<open>_x\<close>. The reference
  \<^verbatim>\<open>sleepiq_data\<close> to the one shared cache is not a field: the cache is passed to
  \<^verbatim>\<open>update\<close> and comes back from it.
\<close>

record SleepIQSensor =
  priv_bed_id :: string
  priv_side :: string
  side_snapshot :: "side option"
  bed_snapshot :: "bed option"
  priv_available :: bool
  priv_attributes :: "string \<rightharpoonup> attribute"
  priv_name :: "string option"
  sensor_type :: "string option"

definition SleepIQSensor_init :: "string \<Rightarrow> string \<Rightarrow> SleepIQSensor" where
  "SleepIQSensor_init b s =
     \<lparr>priv_bed_id = b, priv_side = s, side_snapshot = None, bed_snapshot = None,
      priv_available = False, priv_attributes = Map.empty,
      priv_name = None, sensor_type = None\<rparr>"

text \<open>
  Modelled from the spec: the subclasses that fill in \<^verbatim>\<open>_name\<close> and \<^verbatim>\<open>type\<close>
  ("added by subclass") live in the sensor platforms, which are not part of the module.
  The specification says of the identity that it is "bed identifier + side +
  measurement kind, combined into a unique, stable identifier string at construction",
  and its scenario has the identifier end in the measurement kind itself, so the
  subclass constructor stores the measurement kind in both fields.
\<close>

definition SleepIQSensor_for :: "string \<Rightarrow> string \<Rightarrow> string \<Rightarrow> SleepIQSensor" where
  "SleepIQSensor_for b s kind =
     (SleepIQSensor_init b s)\<lparr>priv_name := Some kind, sensor_type := Some kind\<rparr>"

text \<open>How an f-string prints a field that is a string or \<^verbatim>\<open>None\<close>.\<close>

definition format_opt :: "string option \<Rightarrow> string" where
  "format_opt v = (case v of None \<Rightarrow> ''None'' | Some s \<Rightarrow> s)"

definition SleepIQSensor_unique_id :: "SleepIQSensor \<Rightarrow> string" where
  "SleepIQSensor_unique_id s =
     ''Sleep Number '' @ priv_bed_id s @ '' '' @ priv_side s @ '' '' @ format_opt (priv_name s)"

definition SleepIQSensor_name :: "SleepIQSensor \<Rightarrow> string" where
  "SleepIQSensor_name s =
     (if bed_snapshot s = None \<or> side_snapshot s = None then SleepIQSensor_unique_id s
      else ''Sleep Number '' @ bed_name (the (bed_snapshot s)) @ '' ''
             @ first_name (sleeper (the (side_snapshot s))) @ '' '' @ format_opt (priv_name s))"

text \<open>\<^verbatim>\<open>device_info\<close> reads the attributes of \<^verbatim>\<open>self.bed\<close>, which \<^verbatim>\<open>None\<close>
  does not have.\<close>

definition SleepIQSensor_device_info :: "SleepIQSensor \<Rightarrow> exn + device_info" where
  "SleepIQSensor_device_info s =
     (case bed_snapshot s of
        None \<Rightarrow> Inl (AttributeError ''name'')
      | Some b \<Rightarrow>
          Inr \<lparr>info_identifiers = {(DOMAIN, SleepIQSensor_unique_id s)},
               info_name = bed_name b,
               info_bed_id = priv_bed_id s,
               info_mac_address = bed_mac_address b,
               info_model = bed_model b,
               info_sku = bed_sku b,
               info_generation = bed_generation b,
               info_purchase_date = bed_purchase_date b,
               info_registration_date = bed_registration_date b,
               info_size = bed_size b,
               info_side = priv_side s\<rparr>)"

definition SleepIQSensor_available :: "SleepIQSensor \<Rightarrow> bool" where
  "SleepIQSensor_available s = priv_available s"

definition SleepIQSensor_assumed_state :: "SleepIQSensor \<Rightarrow> bool" where
  "SleepIQSensor_assumed_state s = (\<not> priv_available s)"

definition SleepIQSensor_device_state_attributes :: "SleepIQSensor \<Rightarrow> (string \<rightharpoonup> attribute)" where
  "SleepIQSensor_device_state_attributes s = priv_attributes s"

text \<open>
  The part of \<^verbatim>\<open>SleepIQSensor.update\<close> after the cache has been refreshed, statement
  by statement: each assignment that ran before an exception keeps its effect.
\<close>

definition SleepIQSensor_refresh :: "SleepIQData \<Rightarrow> SleepIQSensor \<Rightarrow> (exn + unit) \<times> SleepIQSensor" where
  "SleepIQSensor_refresh d s =
     (let s1 = s\<lparr>priv_available := True\<rparr> in
      case beds d (priv_bed_id s1) of
        None \<Rightarrow> (Inl (KeyError (priv_bed_id s1)), s1)
      | Some b \<Rightarrow>
          (let s2 = s1\<lparr>bed_snapshot := Some b\<rparr> in
           case getattr_side b (priv_side s2) of
             Inl e \<Rightarrow> (Inl e, s2)
           | Inr sd \<Rightarrow>
               (let s3 = s2\<lparr>side_snapshot := Some sd\<rparr> in
                case SleepIQSensor_device_info s3 of
                  Inl e \<Rightarrow> (Inl e, s3)
                | Inr info \<Rightarrow>
                    (Inr (),
                     s3\<lparr>priv_attributes :=
                          (priv_attributes s3)
                            (''bed_info'' \<mapsto> BedInfo info,
                             ''alerts'' \<mapsto> Alerts (alert_id sd) (alert_detailed_message sd),
                             ''sleeper'' \<mapsto> Sleeper (first_name (sleeper sd)))\<rparr>))))"

text \<open>
  \<^verbatim>\<open>SleepIQSensor.update\<close>, with the shared cache \<open>d\<close> passed in and returned.
  Only \<open>ConnectionError\<close> is caught; any other exception of the cache leaves the
  method with the entity as it was.
\<close>

definition SleepIQSensor_update ::
    "int \<Rightarrow> vendor_reply \<Rightarrow> SleepIQData \<Rightarrow> SleepIQSensor
       \<Rightarrow> (exn + unit) \<times> SleepIQData \<times> SleepIQSensor \<times> event list" where
  "SleepIQSensor_update now r d s =
     (case SleepIQData_update now r d of
        (Inl (ConnectionError m), d', ev) \<Rightarrow> (Inr (), d', s\<lparr>priv_available := False\<rparr>, ev)
      | (Inl e, d', ev) \<Rightarrow> (Inl e, d', s, ev)
      | (Inr v, d', ev) \<Rightarrow>
          (case SleepIQSensor_refresh d' s of (res, s') \<Rightarrow> (res, d', s', ev)))"

subsection \<open>Sequences of calls\<close>

text \<open>
  A caller that polls the cache at the given times, going on after an exception as the
  entities do; the result is the cache at the end and the events of each call.
\<close>

fun run_updates :: "(int \<times> vendor_reply) list \<Rightarrow> SleepIQData \<Rightarrow> SleepIQData \<times> event list list" where
  "run_updates [] d = (d, [])"
| "run_updates ((now, r) # cs) d =
     (case SleepIQData_update now r d of
        (res, d', ev) \<Rightarrow> (case run_updates cs d' of (d'', evs) \<Rightarrow> (d'', ev # evs)))"

definition logins :: "event list \<Rightarrow> nat" where
  "logins ev = count_list ev Login"

text \<open>
  The times of a sequence of calls are spaced when each is at least the minimum
  interval after the one before it; \<open>prev\<close> is the time the first call is measured
  from, if there is one.
\<close>

fun spaced :: "int option \<Rightarrow> int list \<Rightarrow> bool" where
  "spaced prev [] = True"
| "spaced prev (t # ts) =
     ((case prev of None \<Rightarrow> True | Some p \<Rightarrow> MIN_TIME_BETWEEN_UPDATES \<le> t - p)
      \<and> spaced (Some t) ts)"

subsection \<open>Sample data\<close>

text \<open>The bed, the entity and the vendor replies of the scenarios.\<close>

definition some_client :: Sleepyq where
  "some_client = \<lparr>username = ''sam@example.org'', password = ''secret''\<rparr>"

definition some_config :: config where
  "some_config = \<lparr>conf_username = ''sam@example.org'', conf_password = ''secret''\<rparr>"

definition side_sam :: side where
  "side_sam =
     \<lparr>is_in_bed = False, sleep_number = 45, alert_id = 0, alert_detailed_message = '''',
      sleeper = \<lparr>first_name = ''Sam''\<rparr>\<rparr>"

definition side_kim :: side where
  "side_kim =
     \<lparr>is_in_bed = True, sleep_number = 60, alert_id = 0, alert_detailed_message = '''',
      sleeper = \<lparr>first_name = ''Kim''\<rparr>\<rparr>"

definition bed_abc123 :: bed where
  "bed_abc123 =
     \<lparr>bed_id = ''abc123'', bed_name = ''Master'', bed_mac_address = ''AA:BB:CC:DD:EE:FF'',
      bed_model = ''P5'', bed_sku = ''QP5'', bed_generation = ''360'',
      bed_purchase_date = ''2019-01-01'', bed_registration_date = ''2019-01-02'',
      bed_size = ''QUEEN'', bed_left = side_sam, bed_right = side_kim\<rparr>"

definition reply_ok :: vendor_reply where
  "reply_ok =
     \<lparr>login_stdout = '''', login_raises = None,
      beds_stdout = '''', beds_result = Inr [bed_abc123]\<rparr>"

definition reply_noisy :: vendor_reply where
  "reply_noisy =
     \<lparr>login_stdout = ''retrying login '', login_raises = None,
      beds_stdout = ''slow response'', beds_result = Inr [bed_abc123]\<rparr>"

definition reply_noisy_reset :: vendor_reply where
  "reply_noisy_reset =
     \<lparr>login_stdout = ''retrying login '', login_raises = None,
      beds_stdout = ''slow response'', beds_result = Inl (ConnectionError ''reset'')\<rparr>"

definition reply_unauthorized :: vendor_reply where
  "reply_unauthorized =
     \<lparr>login_stdout = ''warn: 401'', login_raises = Some (ValueError ''401''),
      beds_stdout = ''never printed'', beds_result = Inr [bed_abc123]\<rparr>"

definition reply_bed_removed :: vendor_reply where
  "reply_bed_removed =
     \<lparr>login_stdout = '''', login_raises = None, beds_stdout = '''', beds_result = Inr []\<rparr>"

definition reply_refused :: vendor_reply where
  "reply_refused =
     \<lparr>login_stdout = '''', login_raises = Some (ConnectionError ''refused''),
      beds_stdout = '''', beds_result = Inr []\<rparr>"

definition reply_malformed :: vendor_reply where
  "reply_malformed =
     \<lparr>login_stdout = '''', login_raises = None,
      beds_stdout = '''', beds_result = Inl (AttributeError ''json'')\<rparr>"


definition new_cache :: SleepIQData where
  "new_cache = \<lparr>client = some_client, beds = Map.empty, throttle = None\<rparr>"

definition cache_abc123 :: SleepIQData where
  "cache_abc123 =
     \<lparr>client = some_client, beds = [''abc123'' \<mapsto> bed_abc123], throttle = Some 0\<rparr>"

definition sensor_abc123 :: SleepIQSensor where
  "sensor_abc123 = SleepIQSensor_for ''abc123'' LEFT SLEEP_NUMBER"

text \<open>The entity after a poll that found its bed in the cache.\<close>

definition sensor_seen :: SleepIQSensor where
  "sensor_seen = snd (SleepIQSensor_refresh cache_abc123 sensor_abc123)"

section \<open>Properties\<close>

subsection \<open>What one call of the cache does\<close>

lemma update_body_raises:
  "fst (client_calls r) = Inl e \<Longrightarrow>
   SleepIQData_update_body r d =
     (Inl (fst (update_except e d)), snd (update_except e d),
      snd (snd (client_calls r)) @ update_finally (fst (snd (client_calls r))))"
  by (cases "client_calls r") (simp add: SleepIQData_update_body_def)

lemma update_body_returns:
  "fst (client_calls r) = Inr bs \<Longrightarrow>
   SleepIQData_update_body r d =
     (Inr (), d\<lparr>beds := beds_by_id Map.empty bs\<rparr>,
      snd (snd (client_calls r)) @ update_finally (fst (snd (client_calls r)))
        @ (if beds d = Map.empty then [LogDebug ''Connected to SleepIQ.''] else []))"
  by (cases "client_calls r") (simp add: SleepIQData_update_body_def)

lemma Throttle_raises:
  "\<not> throttled min_time now (throttle d) \<Longrightarrow> fst (method d) = Inl e \<Longrightarrow>
   Throttle min_time method now d = method d"
  by (cases "method d") (simp add: Throttle_def)

lemma Throttle_returns:
  "\<not> throttled min_time now (throttle d) \<Longrightarrow> method d = (Inr v, d', ev) \<Longrightarrow>
   Throttle min_time method now d = (Inr v, d'\<lparr>throttle := Some now\<rparr>, ev)"
  by (simp add: Throttle_def)

lemma Throttle_swallows:
  "throttled min_time now (throttle d) \<Longrightarrow> Throttle min_time method now d = (Inr (), d, [])"
  by (simp add: Throttle_def)

text \<open>
  C1. When the login or the fetch of a call that the throttle lets through raises the
  connection error, the call raises that same error, and the cache it leaves is the
  one before the call with its bed mapping emptied.
\<close>

theorem update_connection_failure:
  assumes "fst (client_calls r) = Inl (ConnectionError m)"
    and "\<not> throttled MIN_TIME_BETWEEN_UPDATES now (throttle d)"
  shows "fst (SleepIQData_update now r d) = Inl (ConnectionError m)
       \<and> fst (snd (SleepIQData_update now r d)) = d\<lparr>beds := Map.empty\<rparr>
       \<and> beds (fst (snd (SleepIQData_update now r d))) = Map.empty
       \<and> SleepIQData_update now r d = SleepIQData_update_body r d"
proof -
  have body: "SleepIQData_update_body r d =
      (Inl (ConnectionError m), d\<lparr>beds := Map.empty\<rparr>,
       snd (snd (client_calls r)) @ update_finally (fst (snd (client_calls r))))"
    using update_body_raises [OF assms(1), of d] by simp
  then have "fst (SleepIQData_update_body r d) = Inl (ConnectionError m)"
    by simp
  with assms(2) have same: "SleepIQData_update now r d = SleepIQData_update_body r d"
    unfolding SleepIQData_update_def by (rule Throttle_raises)
  show ?thesis
    unfolding same using body by simp
qed

theorem update_connection_failure_witness:
  "fst (client_calls reply_refused) = Inl (ConnectionError ''refused'')
   \<and> \<not> throttled MIN_TIME_BETWEEN_UPDATES 0 (throttle new_cache)
   \<and> fst (SleepIQData_update 0 reply_refused new_cache) = Inl (ConnectionError ''refused'')
   \<and> beds (fst (snd (SleepIQData_update 0 reply_refused new_cache))) = Map.empty"
proof -
  have h1: "fst (client_calls reply_refused) = Inl (ConnectionError ''refused'')"
    by (simp add: client_calls_def reply_refused_def)
  have h2: "\<not> throttled MIN_TIME_BETWEEN_UPDATES 0 (throttle new_cache)"
    by (simp add: throttled_def new_cache_def)
  from update_connection_failure [OF h1 h2] h1 h2 show ?thesis
    by blast
qed

text \<open>
  C6. When the login or the fetch of a call that the throttle lets through raises an
  attribute error, the call raises the connection error instead, and leaves the cache
  and the log exactly as a plain connection failure with the same output does: the
  cache before the call with its bed mapping emptied.
\<close>

theorem update_attribute_error_normalized:
  assumes "fst (client_calls r) = Inl (AttributeError a)"
    and "fst (client_calls r') = Inl (ConnectionError m)"
    and "snd (client_calls r') = snd (client_calls r)"
    and "\<not> throttled MIN_TIME_BETWEEN_UPDATES now (throttle d)"
  shows "fst (SleepIQData_update now r d) = Inl (ConnectionError ''SleepIQ API unavailable'')
       \<and> beds (fst (snd (SleepIQData_update now r d))) = Map.empty
       \<and> fst (snd (SleepIQData_update now r d)) = d\<lparr>beds := Map.empty\<rparr>
       \<and> snd (SleepIQData_update now r d) = snd (SleepIQData_update now r' d)
       \<and> fst (SleepIQData_update now r' d) = Inl (ConnectionError m)"
proof -
  have body: "SleepIQData_update_body r d =
      (Inl (ConnectionError ''SleepIQ API unavailable''), d\<lparr>beds := Map.empty\<rparr>,
       snd (snd (client_calls r)) @ update_finally (fst (snd (client_calls r))))"
    using update_body_raises [OF assms(1), of d] by simp
  have body': "SleepIQData_update_body r' d =
      (Inl (ConnectionError m), d\<lparr>beds := Map.empty\<rparr>,
       snd (snd (client_calls r)) @ update_finally (fst (snd (client_calls r))))"
    using update_body_raises [OF assms(2), of d] assms(3) by simp
  have same: "SleepIQData_update now r d = SleepIQData_update_body r d"
    unfolding SleepIQData_update_def using assms(4) body
    by (intro Throttle_raises) simp_all
  have same': "SleepIQData_update now r' d = SleepIQData_update_body r' d"
    unfolding SleepIQData_update_def using assms(4) body'
    by (intro Throttle_raises) simp_all
  show ?thesis
    unfolding same same' body body' by simp
qed

theorem update_attribute_error_normalized_witness:
  "fst (client_calls reply_malformed) = Inl (AttributeError ''json'')
   \<and> fst (SleepIQData_update 0 reply_malformed new_cache)
       = Inl (ConnectionError ''SleepIQ API unavailable'')
   \<and> beds (fst (snd (SleepIQData_update 0 reply_malformed new_cache))) = Map.empty
   \<and> snd (SleepIQData_update 0 reply_malformed new_cache)
       = snd (SleepIQData_update 0 (reply_malformed\<lparr>beds_result := Inl (ConnectionError ''reset'')\<rparr>) new_cache)"
proof -
  let ?r' = "reply_malformed\<lparr>beds_result := Inl (ConnectionError ''reset'')\<rparr>"
  have h1: "fst (client_calls reply_malformed) = Inl (AttributeError ''json'')"
    by (simp add: client_calls_def reply_malformed_def)
  have h2: "fst (client_calls ?r') = Inl (ConnectionError ''reset'')"
    by (simp add: client_calls_def reply_malformed_def)
  have h3: "snd (client_calls ?r') = snd (client_calls reply_malformed)"
    by (simp add: client_calls_def reply_malformed_def)
  have h4: "\<not> throttled MIN_TIME_BETWEEN_UPDATES 0 (throttle new_cache)"
    by (simp add: throttled_def new_cache_def)
  from update_attribute_error_normalized [OF h1 h2 h3 h4] h1 show ?thesis
    by blast
qed

text \<open>
  C8. Take a call that goes to the vendor. The text logged is the text the client
  printed: what \<^verbatim>\<open>login()\<close> printed when \<^verbatim>\<open>login()\<close> raises, and what
  \<^verbatim>\<open>login()\<close> printed followed by what \<^verbatim>\<open>beds_with_sleeper_status()\<close> printed
  when the login returns, whether the fetch then raises or returns. That text is logged
  as exactly one warning when it is not empty and as none when it is; the warning comes
  right after the vendor calls, and only the debug entry of a first connection, on a
  returning fetch, can follow it.
\<close>

theorem update_forwards_client_output:
  assumes "\<not> throttled MIN_TIME_BETWEEN_UPDATES now (throttle d)"
    and "SleepIQData_update now r d = (outcome, d', ev)"
  shows "(\<forall>e. login_raises r = Some e \<longrightarrow>
            ev = [Login]
                 @ (if login_stdout r = [] then [] else [LogWarning (login_stdout r)]))
       \<and> (\<forall>e. login_raises r = None \<and> beds_result r = Inl e \<longrightarrow>
            ev = [Login, BedsWithSleeperStatus]
                 @ (if login_stdout r @ beds_stdout r = [] then []
                    else [LogWarning (login_stdout r @ beds_stdout r)]))
       \<and> (\<forall>bs. login_raises r = None \<and> beds_result r = Inr bs \<longrightarrow>
            ev = [Login, BedsWithSleeperStatus]
                 @ (if login_stdout r @ beds_stdout r = [] then []
                    else [LogWarning (login_stdout r @ beds_stdout r)])
                 @ (if beds d = Map.empty then [LogDebug ''Connected to SleepIQ.''] else []))
       \<and> filter (\<lambda>e. \<exists>t. e = LogWarning t) ev
           = (case login_raises r of
                Some e \<Rightarrow> if login_stdout r = [] then [] else [LogWarning (login_stdout r)]
              | None \<Rightarrow> if login_stdout r @ beds_stdout r = [] then []
                        else [LogWarning (login_stdout r @ beds_stdout r)])
       \<and> ev = snd (snd (SleepIQData_update_body r d))"
proof -
  have fin: "update_finally out = (if out = [] then [] else [LogWarning out])" for out
    by (simp add: update_finally_def)
  have raising: "ev = snd (snd (SleepIQData_update_body r d))"
    if "fst (client_calls r) = Inl e" for e
  proof -
    from update_body_raises [OF that, of d]
    have "fst (SleepIQData_update_body r d) = Inl (fst (update_except e d))"
      by simp
    with assms(1) have "SleepIQData_update now r d = SleepIQData_update_body r d"
      unfolding SleepIQData_update_def by (rule Throttle_raises)
    with assms(2) show ?thesis
      by simp
  qed
  have returning: "ev = snd (snd (SleepIQData_update_body r d))"
    if "fst (client_calls r) = Inr bs" for bs
  proof -
    note body = update_body_returns [OF that, of d]
    from Throttle_returns [of MIN_TIME_BETWEEN_UPDATES now d "SleepIQData_update_body r",
        OF assms(1) body] assms(2) body
    show ?thesis
      by (simp add: SleepIQData_update_def)
  qed
  show ?thesis
  proof (cases "login_raises r")
    case (Some e)
    then have calls: "fst (client_calls r) = Inl e"
      by (simp add: client_calls_def)
    note same = raising [OF calls]
    from update_body_raises [OF calls, of d] Some
    have "ev = [Login] @ (if login_stdout r = [] then [] else [LogWarning (login_stdout r)])"
      by (simp add: same client_calls_def fin)
    with Some same [symmetric] show ?thesis
      by simp
  next
    case None
    let ?out = "login_stdout r @ beds_stdout r"
    let ?warn = "if ?out = [] then [] else [LogWarning ?out]"
    show ?thesis
    proof (cases "beds_result r")
      case (Inl e)
      with None have calls: "fst (client_calls r) = Inl e"
        by (simp add: client_calls_def)
      note same = raising [OF calls]
      from update_body_raises [OF calls, of d] None
      have "ev = [Login, BedsWithSleeperStatus] @ ?warn"
        by (simp add: same client_calls_def fin)
      with None Inl same [symmetric] show ?thesis
        by simp
    next
      case (Inr bs)
      with None have calls: "fst (client_calls r) = Inr bs"
        by (simp add: client_calls_def)
      note same = returning [OF calls]
      from update_body_returns [OF calls, of d] None
      have "ev = [Login, BedsWithSleeperStatus] @ ?warn
                 @ (if beds d = Map.empty then [LogDebug ''Connected to SleepIQ.''] else [])"
        by (simp add: same client_calls_def fin)
      with None Inr same [symmetric] show ?thesis
        by simp
    qed
  qed
qed

theorem update_forwards_client_output_witness:
  "\<not> throttled MIN_TIME_BETWEEN_UPDATES 0 (throttle new_cache)
   \<and> \<not> throttled MIN_TIME_BETWEEN_UPDATES (timedelta_seconds 60) (throttle cache_abc123)
   \<and> snd (snd (SleepIQData_update 0 reply_noisy new_cache))
       = [Login, BedsWithSleeperStatus, LogWarning ''retrying login slow response'',
          LogDebug ''Connected to SleepIQ.'']
   \<and> snd (snd (SleepIQData_update (timedelta_seconds 60) reply_unauthorized cache_abc123))
       = [Login, LogWarning ''warn: 401'']
   \<and> filter (\<lambda>e. \<exists>t. e = LogWarning t)
         (snd (snd (SleepIQData_update (timedelta_seconds 60) reply_unauthorized cache_abc123)))
       = [LogWarning ''warn: 401'']
   \<and> snd (snd (SleepIQData_update (timedelta_seconds 60) reply_noisy_reset cache_abc123))
       = [Login, BedsWithSleeperStatus, LogWarning ''retrying login slow response'']
   \<and> snd (snd (SleepIQData_update (timedelta_seconds 60) reply_refused cache_abc123))
       = [Login]"
proof -
  have open0: "\<not> throttled MIN_TIME_BETWEEN_UPDATES 0 (throttle new_cache)"
    by (simp add: throttled_def new_cache_def)
  have open60: "\<not> throttled MIN_TIME_BETWEEN_UPDATES (timedelta_seconds 60) (throttle cache_abc123)"
    by (simp add: throttled_def cache_abc123_def MIN_TIME_BETWEEN_UPDATES_def
        timedelta_seconds_def)
  have split: "c = (fst c, fst (snd c), snd (snd c))"
    for c :: "(exn + unit) \<times> SleepIQData \<times> event list"
    by simp
  have fresh: "beds new_cache = Map.empty"
    by (simp add: new_cache_def)
  note noisy = update_forwards_client_output [OF open0 split, of reply_noisy]
  note unauthorized = update_forwards_client_output [OF open60 split, of reply_unauthorized]
  note reset = update_forwards_client_output [OF open60 split, of reply_noisy_reset]
  note refused = update_forwards_client_output [OF open60 split, of reply_refused]
  have a: "snd (snd (SleepIQData_update 0 reply_noisy new_cache))
       = [Login, BedsWithSleeperStatus, LogWarning ''retrying login slow response'',
          LogDebug ''Connected to SleepIQ.'']"
    using noisy fresh by (simp add: reply_noisy_def)
  have b: "snd (snd (SleepIQData_update (timedelta_seconds 60) reply_unauthorized cache_abc123))
       = [Login, LogWarning ''warn: 401'']"
    using unauthorized by (simp add: reply_unauthorized_def)
  have c: "snd (snd (SleepIQData_update (timedelta_seconds 60) reply_noisy_reset cache_abc123))
       = [Login, BedsWithSleeperStatus, LogWarning ''retrying login slow response'']"
    using reset by (simp add: reply_noisy_reset_def)
  have d: "snd (snd (SleepIQData_update (timedelta_seconds 60) reply_refused cache_abc123))
       = [Login]"
    using refused by (simp add: reply_refused_def)
  from open0 open60 a b c d show ?thesis
    by simp
qed

subsection \<open>What one poll of an entity does\<close>

text \<open>
  C2. When the cache's update raises the connection error inside an entity's update,
  the entity's update returns normally, the entity is unavailable afterwards, and its
  attribute mapping, like every other field, is the one it had before the call.
\<close>

theorem sensor_update_connection_failure:
  assumes "SleepIQData_update now r d = (Inl (ConnectionError m), d', ev)"
  shows "SleepIQSensor_update now r d s = (Inr (), d', s\<lparr>priv_available := False\<rparr>, ev)
       \<and> \<not> SleepIQSensor_available (fst (snd (snd (SleepIQSensor_update now r d s))))
       \<and> SleepIQSensor_device_state_attributes (fst (snd (snd (SleepIQSensor_update now r d s))))
           = SleepIQSensor_device_state_attributes s"
  using assms
  by (simp add: SleepIQSensor_update_def SleepIQSensor_available_def
      SleepIQSensor_device_state_attributes_def)

theorem sensor_update_connection_failure_witness:
  "SleepIQData_update (timedelta_seconds 60) reply_refused cache_abc123
     = (Inl (ConnectionError ''refused''), cache_abc123\<lparr>beds := Map.empty\<rparr>, [Login])
   \<and> fst (SleepIQSensor_update (timedelta_seconds 60) reply_refused cache_abc123 sensor_seen)
       = Inr ()
   \<and> \<not> SleepIQSensor_available
         (fst (snd (snd (SleepIQSensor_update (timedelta_seconds 60) reply_refused
                           cache_abc123 sensor_seen))))
   \<and> SleepIQSensor_device_state_attributes
         (fst (snd (snd (SleepIQSensor_update (timedelta_seconds 60) reply_refused
                           cache_abc123 sensor_seen))))
       = SleepIQSensor_device_state_attributes sensor_seen
   \<and> SleepIQSensor_device_state_attributes sensor_seen ''sleeper'' = Some (Sleeper ''Sam'')"
proof -
  have h: "SleepIQData_update (timedelta_seconds 60) reply_refused cache_abc123
      = (Inl (ConnectionError ''refused''), cache_abc123\<lparr>beds := Map.empty\<rparr>, [Login])"
    by (simp add: SleepIQData_update_def Throttle_def throttled_def cache_abc123_def
        MIN_TIME_BETWEEN_UPDATES_def timedelta_seconds_def SleepIQData_update_body_def
        client_calls_def reply_refused_def update_finally_def)
  have seen: "SleepIQSensor_device_state_attributes sensor_seen ''sleeper'' = Some (Sleeper ''Sam'')"
    by (simp add: SleepIQSensor_device_state_attributes_def sensor_seen_def
        SleepIQSensor_refresh_def sensor_abc123_def SleepIQSensor_for_def SleepIQSensor_init_def
        cache_abc123_def getattr_side_def LEFT_def SleepIQSensor_device_info_def
        bed_abc123_def side_sam_def)
  note poll = sensor_update_connection_failure [OF h, of sensor_seen]
  from poll have returns:
    "fst (SleepIQSensor_update (timedelta_seconds 60) reply_refused cache_abc123 sensor_seen)
       = Inr ()"
    by simp
  from poll h returns seen show ?thesis
    by blast
qed

lemma refresh_found:
  assumes "beds d (priv_bed_id s) = Some b"
    and "priv_side s = ''left''"
  shows "SleepIQSensor_refresh d s =
     (Inr (),
      s\<lparr>priv_available := True, bed_snapshot := Some b, side_snapshot := Some (bed_left b),
        priv_attributes :=
          (priv_attributes s)
            (''bed_info'' \<mapsto>
               BedInfo \<lparr>info_identifiers = {(DOMAIN, SleepIQSensor_unique_id s)},
                        info_name = bed_name b,
                        info_bed_id = priv_bed_id s,
                        info_mac_address = bed_mac_address b,
                        info_model = bed_model b,
                        info_sku = bed_sku b,
                        info_generation = bed_generation b,
                        info_purchase_date = bed_purchase_date b,
                        info_registration_date = bed_registration_date b,
                        info_size = bed_size b,
                        info_side = priv_side s\<rparr>,
             ''alerts'' \<mapsto> Alerts (alert_id (bed_left b)) (alert_detailed_message (bed_left b)),
             ''sleeper'' \<mapsto> Sleeper (first_name (sleeper (bed_left b))))\<rparr>)"
  using assms
  by (simp add: SleepIQSensor_refresh_def getattr_side_def SleepIQSensor_device_info_def
      SleepIQSensor_unique_id_def)

lemma refresh_missing:
  "beds d (priv_bed_id s) = None \<Longrightarrow>
   SleepIQSensor_refresh d s = (Inl (KeyError (priv_bed_id s)), s\<lparr>priv_available := True\<rparr>)"
  by (simp add: SleepIQSensor_refresh_def)

lemma sensor_update_returns:
  "SleepIQData_update now r d = (Inr v, d', ev) \<Longrightarrow>
   SleepIQSensor_update now r d s
     = (fst (SleepIQSensor_refresh d' s), d', snd (SleepIQSensor_refresh d' s), ev)"
  by (simp add: SleepIQSensor_update_def split: prod.splits)

text \<open>
  C5. Take the entity constructed for bed "abc123", the left side and the sleep number
  measurement, and a poll in which the cache's update returns and leaves a mapping with
  a bed "abc123" whose left side has sleeper "Sam", sleep number 45 and alert 0. The
  poll returns, and afterwards the entity is available, its unique identifier is
  "Sleep Number abc123 left sleep_number" and its attribute "sleeper" is "Sam".
\<close>

theorem sensor_scenario_abc123:
  assumes "SleepIQData_update now r d = (Inr v, d', ev)"
    and "beds d' ''abc123'' = Some b"
    and "first_name (sleeper (bed_left b)) = ''Sam''"
    and "sleep_number (bed_left b) = 45"
    and "alert_id (bed_left b) = 0"
    and "SleepIQSensor_update now r d (SleepIQSensor_for ''abc123'' LEFT SLEEP_NUMBER)
           = (res, d'', s', ev')"
  shows "res = Inr ()
       \<and> SleepIQSensor_available s'
       \<and> SleepIQSensor_unique_id s' = ''Sleep Number abc123 left sleep_number''
       \<and> SleepIQSensor_device_state_attributes s' ''sleeper'' = Some (Sleeper ''Sam'')
       \<and> SleepIQSensor_device_state_attributes s' ''alerts''
           = Some (Alerts 0 (alert_detailed_message (bed_left b)))"
proof -
  let ?s = "SleepIQSensor_for ''abc123'' LEFT SLEEP_NUMBER"
  have id: "priv_bed_id ?s = ''abc123''" and sd: "priv_side ?s = ''left''"
    by (simp_all add: SleepIQSensor_for_def SleepIQSensor_init_def LEFT_def)
  from assms(2) id have found: "beds d' (priv_bed_id ?s) = Some b"
    by simp
  note after = refresh_found [OF found sd]
  from sensor_update_returns [OF assms(1), of ?s] assms(6)
  have res: "res = fst (SleepIQSensor_refresh d' ?s)"
    and s': "s' = snd (SleepIQSensor_refresh d' ?s)"
    by simp_all
  have "res = Inr ()"
    unfolding res after by simp
  moreover have "SleepIQSensor_available s'"
    unfolding s' after by (simp add: SleepIQSensor_available_def)
  moreover have "SleepIQSensor_unique_id s' = ''Sleep Number abc123 left sleep_number''"
    unfolding s' after
    by (simp add: SleepIQSensor_unique_id_def SleepIQSensor_for_def SleepIQSensor_init_def
        LEFT_def SLEEP_NUMBER_def format_opt_def)
  moreover have "SleepIQSensor_device_state_attributes s' ''sleeper'' = Some (Sleeper ''Sam'')"
    unfolding s' after using assms(3)
    by (simp add: SleepIQSensor_device_state_attributes_def)
  moreover have "SleepIQSensor_device_state_attributes s' ''alerts''
           = Some (Alerts 0 (alert_detailed_message (bed_left b)))"
    unfolding s' after using assms(5)
    by (simp add: SleepIQSensor_device_state_attributes_def)
  ultimately show ?thesis
    by blast
qed

theorem sensor_scenario_abc123_witness:
  "SleepIQData_update 0 reply_ok new_cache
     = (Inr (), new_cache\<lparr>beds := [''abc123'' \<mapsto> bed_abc123], throttle := Some 0\<rparr>,
        [Login, BedsWithSleeperStatus, LogDebug ''Connected to SleepIQ.''])
   \<and> first_name (sleeper (bed_left bed_abc123)) = ''Sam''
   \<and> sleep_number (bed_left bed_abc123) = 45
   \<and> alert_id (bed_left bed_abc123) = 0
   \<and> fst (SleepIQSensor_update 0 reply_ok new_cache
             (SleepIQSensor_for ''abc123'' LEFT SLEEP_NUMBER)) = Inr ()
   \<and> SleepIQSensor_available
        (fst (snd (snd (SleepIQSensor_update 0 reply_ok new_cache
                          (SleepIQSensor_for ''abc123'' LEFT SLEEP_NUMBER)))))
   \<and> SleepIQSensor_unique_id
        (fst (snd (snd (SleepIQSensor_update 0 reply_ok new_cache
                          (SleepIQSensor_for ''abc123'' LEFT SLEEP_NUMBER)))))
       = ''Sleep Number abc123 left sleep_number''
   \<and> SleepIQSensor_device_state_attributes
        (fst (snd (snd (SleepIQSensor_update 0 reply_ok new_cache
                          (SleepIQSensor_for ''abc123'' LEFT SLEEP_NUMBER))))) ''sleeper''
       = Some (Sleeper ''Sam'')"
proof -
  let ?poll = "SleepIQSensor_update 0 reply_ok new_cache
                 (SleepIQSensor_for ''abc123'' LEFT SLEEP_NUMBER)"
  have h1: "SleepIQData_update 0 reply_ok new_cache
     = (Inr (), new_cache\<lparr>beds := [''abc123'' \<mapsto> bed_abc123], throttle := Some 0\<rparr>,
        [Login, BedsWithSleeperStatus, LogDebug ''Connected to SleepIQ.''])"
    by (simp add: SleepIQData_update_def Throttle_def throttled_def new_cache_def
        SleepIQData_update_body_def client_calls_def reply_ok_def update_finally_def
        bed_abc123_def)
  have h2: "beds (new_cache\<lparr>beds := [''abc123'' \<mapsto> bed_abc123], throttle := Some 0\<rparr>) ''abc123''
      = Some bed_abc123"
    by simp
  have h3: "first_name (sleeper (bed_left bed_abc123)) = ''Sam''"
    and h4: "sleep_number (bed_left bed_abc123) = 45"
    and h5: "alert_id (bed_left bed_abc123) = 0"
    by (simp_all add: bed_abc123_def side_sam_def)
  have h6: "?poll = (fst ?poll, fst (snd ?poll), fst (snd (snd ?poll)), snd (snd (snd ?poll)))"
    by simp
  from sensor_scenario_abc123 [OF h1 h2 h3 h4 h5 h6] h1 h3 h4 h5 show ?thesis
    by blast
qed

text \<open>
  The entity as its constructor leaves it, whatever the bed identifier and the side,
  and whatever a subclass then stores in \<^verbatim>\<open>_name\<close> and \<^verbatim>\<open>type\<close>: it is not
  available, its state is assumed, it has no attributes, and its name is its unique
  identifier. Marking it unavailable, which is all that a poll meeting the connection
  error does to an entity, leaves it as it is.
\<close>

lemma sensor_init_reports:
  "\<not> SleepIQSensor_available (SleepIQSensor_init b s)
   \<and> SleepIQSensor_assumed_state (SleepIQSensor_init b s)
   \<and> SleepIQSensor_device_state_attributes (SleepIQSensor_init b s) = Map.empty
   \<and> SleepIQSensor_name (SleepIQSensor_init b s) = SleepIQSensor_unique_id (SleepIQSensor_init b s)
   \<and> SleepIQSensor_unique_id (SleepIQSensor_init b s) = ''Sleep Number '' @ b @ '' '' @ s @ '' None''
   \<and> (SleepIQSensor_init b s)\<lparr>priv_available := False\<rparr> = SleepIQSensor_init b s
   \<and> \<not> SleepIQSensor_available ((SleepIQSensor_init b s)\<lparr>priv_name := n, sensor_type := ty\<rparr>)
   \<and> SleepIQSensor_assumed_state ((SleepIQSensor_init b s)\<lparr>priv_name := n, sensor_type := ty\<rparr>)
   \<and> SleepIQSensor_device_state_attributes
         ((SleepIQSensor_init b s)\<lparr>priv_name := n, sensor_type := ty\<rparr>) = Map.empty
   \<and> SleepIQSensor_name ((SleepIQSensor_init b s)\<lparr>priv_name := n, sensor_type := ty\<rparr>)
       = SleepIQSensor_unique_id ((SleepIQSensor_init b s)\<lparr>priv_name := n, sensor_type := ty\<rparr>)"
  by (simp add: SleepIQSensor_available_def SleepIQSensor_assumed_state_def
      SleepIQSensor_device_state_attributes_def SleepIQSensor_name_def
      SleepIQSensor_unique_id_def SleepIQSensor_init_def format_opt_def)

text \<open>
  The entity stays so through every poll in which the update of the cache raises: the
  connection error is swallowed and marks unavailable an entity that already is, and
  any other exception leaves the poll before the entity is touched.
\<close>

lemma sensor_init_kept_when_cache_raises:
  assumes "SleepIQData_update now r d = (Inl e, d', ev)"
  shows "fst (snd (snd (SleepIQSensor_update now r d (SleepIQSensor_init b s))))
           = SleepIQSensor_init b s"
  using assms
  by (cases e) (simp_all add: SleepIQSensor_update_def SleepIQSensor_init_def)

text \<open>
  C10, on the code. The entity for bed "abc123" and the left side is constructed: it
  is not available and its state is assumed. Its first poll comes when the account no
  longer has the bed and the fetch returns no beds. The poll sets
  \<^verbatim>\<open>_available = True\<close> and then the subscript
  \<^verbatim>\<open>self.sleepiq_data.beds[self._bed_id]\<close> raises \<open>KeyError\<close> out of it. No update of
  the entity has succeeded, and the entity is available and its state is not assumed;
  it still has no attributes and its name is still its unique identifier.
\<close>

theorem sensor_first_poll_bed_missing:
  "\<not> SleepIQSensor_available (SleepIQSensor_init ''abc123'' ''left'')
   \<and> SleepIQSensor_assumed_state (SleepIQSensor_init ''abc123'' ''left'')
   \<and> SleepIQSensor_update (timedelta_seconds 60) reply_bed_removed cache_abc123
         (SleepIQSensor_init ''abc123'' ''left'')
       = (Inl (KeyError ''abc123''),
          cache_abc123\<lparr>beds := Map.empty, throttle := Some (timedelta_seconds 60)\<rparr>,
          (SleepIQSensor_init ''abc123'' ''left'')\<lparr>priv_available := True\<rparr>,
          [Login, BedsWithSleeperStatus])
   \<and> SleepIQSensor_available ((SleepIQSensor_init ''abc123'' ''left'')\<lparr>priv_available := True\<rparr>)
   \<and> \<not> SleepIQSensor_assumed_state
         ((SleepIQSensor_init ''abc123'' ''left'')\<lparr>priv_available := True\<rparr>)
   \<and> SleepIQSensor_device_state_attributes
         ((SleepIQSensor_init ''abc123'' ''left'')\<lparr>priv_available := True\<rparr>) = Map.empty
   \<and> SleepIQSensor_name ((SleepIQSensor_init ''abc123'' ''left'')\<lparr>priv_available := True\<rparr>)
       = SleepIQSensor_unique_id
           ((SleepIQSensor_init ''abc123'' ''left'')\<lparr>priv_available := True\<rparr>)"
proof -
  let ?s = "SleepIQSensor_init ''abc123'' ''left''"
  let ?d = "cache_abc123\<lparr>beds := Map.empty, throttle := Some (timedelta_seconds 60)\<rparr>"
  have cache: "SleepIQData_update (timedelta_seconds 60) reply_bed_removed cache_abc123
      = (Inr (), ?d, [Login, BedsWithSleeperStatus])"
    by (simp add: SleepIQData_update_def Throttle_def throttled_def cache_abc123_def
        MIN_TIME_BETWEEN_UPDATES_def timedelta_seconds_def SleepIQData_update_body_def
        client_calls_def reply_bed_removed_def update_finally_def)
  have id: "priv_bed_id ?s = ''abc123''"
    by (simp add: SleepIQSensor_init_def)
  have "beds ?d (priv_bed_id ?s) = None"
    by simp
  from refresh_missing [OF this] id
  have gone: "SleepIQSensor_refresh ?d ?s = (Inl (KeyError ''abc123''), ?s\<lparr>priv_available := True\<rparr>)"
    by simp
  have poll: "SleepIQSensor_update (timedelta_seconds 60) reply_bed_removed cache_abc123 ?s
      = (Inl (KeyError ''abc123''), ?d, ?s\<lparr>priv_available := True\<rparr>, [Login, BedsWithSleeperStatus])"
    using sensor_update_returns [OF cache, of ?s] gone by simp
  have before: "\<not> SleepIQSensor_available ?s \<and> SleepIQSensor_assumed_state ?s"
    by (simp add: SleepIQSensor_available_def SleepIQSensor_assumed_state_def
        SleepIQSensor_init_def)
  have after: "SleepIQSensor_available (?s\<lparr>priv_available := True\<rparr>)
      \<and> \<not> SleepIQSensor_assumed_state (?s\<lparr>priv_available := True\<rparr>)
      \<and> SleepIQSensor_device_state_attributes (?s\<lparr>priv_available := True\<rparr>) = Map.empty
      \<and> SleepIQSensor_name (?s\<lparr>priv_available := True\<rparr>)
          = SleepIQSensor_unique_id (?s\<lparr>priv_available := True\<rparr>)"
    by (simp add: SleepIQSensor_available_def SleepIQSensor_assumed_state_def
        SleepIQSensor_device_state_attributes_def SleepIQSensor_name_def
        SleepIQSensor_unique_id_def SleepIQSensor_init_def)
  from before poll after show ?thesis
    by blast
qed

text \<open>
  C4, on the code. The entity has seen bed "abc123" in an earlier poll; a minute later
  the account no longer has the bed and the fetch returns no beds. The subscript
  \<^verbatim>\<open>self.sleepiq_data.beds[self._bed_id]\<close> raises \<open>KeyError\<close> out of the poll, after the
  entity was marked available and before its bed and side were touched, so the name
  is still built from the old snapshot and is not the unique identifier. An entity
  that never saw the bed keeps its unique identifier as name, and its poll raises the
  same \<open>KeyError\<close>.
\<close>

theorem sensor_bed_removed_raises:
  "SleepIQSensor_update (timedelta_seconds 60) reply_bed_removed cache_abc123 sensor_seen
     = (Inl (KeyError ''abc123''),
        cache_abc123\<lparr>beds := Map.empty, throttle := Some (timedelta_seconds 60)\<rparr>,
        sensor_seen,
        [Login, BedsWithSleeperStatus])
   \<and> SleepIQSensor_available sensor_seen
   \<and> SleepIQSensor_name sensor_seen = ''Sleep Number Master Sam sleep_number''
   \<and> SleepIQSensor_unique_id sensor_seen = ''Sleep Number abc123 left sleep_number''
   \<and> fst (SleepIQSensor_update (timedelta_seconds 60) reply_bed_removed cache_abc123 sensor_abc123)
       = Inl (KeyError ''abc123'')"
proof -
  let ?d = "cache_abc123\<lparr>beds := Map.empty, throttle := Some (timedelta_seconds 60)\<rparr>"
  have cache: "SleepIQData_update (timedelta_seconds 60) reply_bed_removed cache_abc123
      = (Inr (), ?d, [Login, BedsWithSleeperStatus])"
    by (simp add: SleepIQData_update_def Throttle_def throttled_def cache_abc123_def
        MIN_TIME_BETWEEN_UPDATES_def timedelta_seconds_def SleepIQData_update_body_def
        client_calls_def reply_bed_removed_def update_finally_def)
  have fresh: "priv_bed_id sensor_abc123 = ''abc123''" "priv_side sensor_abc123 = ''left''"
    by (simp_all add: sensor_abc123_def SleepIQSensor_for_def SleepIQSensor_init_def LEFT_def)
  have "beds cache_abc123 (priv_bed_id sensor_abc123) = Some bed_abc123"
    by (simp add: fresh cache_abc123_def)
  from refresh_found [OF this fresh(2)]
  have seen: "sensor_seen =
      sensor_abc123\<lparr>priv_available := True, bed_snapshot := Some bed_abc123,
        side_snapshot := Some (bed_left bed_abc123),
        priv_attributes :=
          (priv_attributes sensor_abc123)
            (''bed_info'' \<mapsto>
               BedInfo \<lparr>info_identifiers = {(DOMAIN, SleepIQSensor_unique_id sensor_abc123)},
                        info_name = bed_name bed_abc123,
                        info_bed_id = priv_bed_id sensor_abc123,
                        info_mac_address = bed_mac_address bed_abc123,
                        info_model = bed_model bed_abc123,
                        info_sku = bed_sku bed_abc123,
                        info_generation = bed_generation bed_abc123,
                        info_purchase_date = bed_purchase_date bed_abc123,
                        info_registration_date = bed_registration_date bed_abc123,
                        info_size = bed_size bed_abc123,
                        info_side = priv_side sensor_abc123\<rparr>,
             ''alerts'' \<mapsto> Alerts (alert_id (bed_left bed_abc123))
                                (alert_detailed_message (bed_left bed_abc123)),
             ''sleeper'' \<mapsto> Sleeper (first_name (sleeper (bed_left bed_abc123))))\<rparr>"
    by (simp add: sensor_seen_def)
  have id: "priv_bed_id sensor_seen = ''abc123''"
    by (simp add: seen fresh)
  have avail: "priv_available sensor_seen"
    by (simp add: seen)
  have "beds ?d (priv_bed_id sensor_seen) = None"
    by simp
  from refresh_missing [OF this] id avail
  have gone: "SleepIQSensor_refresh ?d sensor_seen = (Inl (KeyError ''abc123''), sensor_seen)"
    by simp
  have "beds ?d (priv_bed_id sensor_abc123) = None"
    by simp
  from refresh_missing [OF this] fresh(1)
  have gone': "fst (SleepIQSensor_refresh ?d sensor_abc123) = Inl (KeyError ''abc123'')"
    by simp
  have "SleepIQSensor_update (timedelta_seconds 60) reply_bed_removed cache_abc123 sensor_seen
     = (Inl (KeyError ''abc123''), ?d, sensor_seen, [Login, BedsWithSleeperStatus])"
    using sensor_update_returns [OF cache, of sensor_seen] gone by simp
  moreover have "SleepIQSensor_available sensor_seen"
    using avail by (simp add: SleepIQSensor_available_def)
  moreover have "SleepIQSensor_name sensor_seen = ''Sleep Number Master Sam sleep_number''"
    by (simp add: seen SleepIQSensor_name_def sensor_abc123_def SleepIQSensor_for_def
        SleepIQSensor_init_def bed_abc123_def side_sam_def SLEEP_NUMBER_def format_opt_def)
  moreover have "SleepIQSensor_unique_id sensor_seen = ''Sleep Number abc123 left sleep_number''"
    by (simp add: seen SleepIQSensor_unique_id_def sensor_abc123_def SleepIQSensor_for_def
        SleepIQSensor_init_def LEFT_def SLEEP_NUMBER_def format_opt_def)
  moreover have "fst (SleepIQSensor_update (timedelta_seconds 60) reply_bed_removed
                        cache_abc123 sensor_abc123) = Inl (KeyError ''abc123'')"
    using sensor_update_returns [OF cache, of sensor_abc123] gone' by simp
  ultimately show ?thesis
    by blast
qed

subsection \<open>The throttle over several calls\<close>

lemma MIN_TIME_nonneg: "0 \<le> MIN_TIME_BETWEEN_UPDATES"
  by (simp add: MIN_TIME_BETWEEN_UPDATES_def timedelta_seconds_def)

lemma logins_client_calls: "logins (snd (snd (client_calls r))) = 1"
  by (simp add: client_calls_def logins_def split: option.splits)

lemma logins_append: "logins (xs @ ys) = logins xs + logins ys"
  by (induction xs) (simp_all add: logins_def)

lemma logins_update_finally: "logins (update_finally out) = 0"
  by (simp add: update_finally_def logins_def)

lemma logins_update_body: "logins (snd (snd (SleepIQData_update_body r d))) = 1"
proof (cases "fst (client_calls r)")
  case (Inl e)
  from update_body_raises [OF this, of d] show ?thesis
    by (simp add: logins_append logins_client_calls logins_update_finally)
next
  case (Inr bs)
  have "logins (if beds d = Map.empty then [LogDebug ''Connected to SleepIQ.''] else []) = 0"
    by (simp add: logins_def)
  with update_body_returns [OF Inr, of d] show ?thesis
    by (simp add: logins_append logins_client_calls logins_update_finally)
qed

lemma throttle_update_body: "throttle (fst (snd (SleepIQData_update_body r d))) = throttle d"
proof (cases "fst (client_calls r)")
  case (Inl e)
  have "throttle (snd (update_except e d)) = throttle d"
    by (cases e) simp_all
  with update_body_raises [OF Inl, of d] show ?thesis
    by simp
next
  case (Inr bs)
  from update_body_returns [OF this, of d] show ?thesis
    by simp
qed

lemma update_swallowed:
  "throttled MIN_TIME_BETWEEN_UPDATES now (throttle d) \<Longrightarrow>
   SleepIQData_update now r d = (Inr (), d, [])"
  unfolding SleepIQData_update_def by (rule Throttle_swallows)

lemma update_let_through:
  assumes "\<not> throttled MIN_TIME_BETWEEN_UPDATES now (throttle d)"
  shows "logins (snd (snd (SleepIQData_update now r d))) = 1"
    and "throttle (fst (snd (SleepIQData_update now r d))) = Some now
         \<or> throttle (fst (snd (SleepIQData_update now r d))) = throttle d"
    and "snd (snd (SleepIQData_update now r d)) = snd (snd (SleepIQData_update_body r d))"
    and "\<And>v. fst (SleepIQData_update now r d) = Inr v \<Longrightarrow>
           throttle (fst (snd (SleepIQData_update now r d))) = Some now"
proof -
  obtain res d' ev where body: "SleepIQData_update_body r d = (res, d', ev)"
    by (cases "SleepIQData_update_body r d") auto
  have ev: "logins ev = 1" and d': "throttle d' = throttle d"
    using logins_update_body [of r d] throttle_update_body [of r d] body by simp_all
  have call: "SleepIQData_update now r d
      = (case res of Inl e \<Rightarrow> (Inl e, d', ev) | Inr v \<Rightarrow> (Inr v, d'\<lparr>throttle := Some now\<rparr>, ev))"
    using assms body by (simp add: SleepIQData_update_def Throttle_def split: sum.splits)
  show "logins (snd (snd (SleepIQData_update now r d))) = 1"
    unfolding call using ev by (cases res) simp_all
  show "throttle (fst (snd (SleepIQData_update now r d))) = Some now
         \<or> throttle (fst (snd (SleepIQData_update now r d))) = throttle d"
    unfolding call using d' by (cases res) simp_all
  show "snd (snd (SleepIQData_update now r d)) = snd (snd (SleepIQData_update_body r d))"
    unfolding call body by (cases res) simp_all
  show "\<And>v. fst (SleepIQData_update now r d) = Inr v \<Longrightarrow>
           throttle (fst (snd (SleepIQData_update now r d))) = Some now"
    unfolding call by (cases res) simp_all
qed

lemma run_updates_window:
  assumes "throttle d = Some t0"
    and "\<forall>c \<in> set cs. fst c - t0 < MIN_TIME_BETWEEN_UPDATES"
  shows "run_updates cs d = (d, replicate (length cs) [])"
  using assms(2)
proof (induction cs)
  case Nil
  show ?case by simp
next
  case (Cons c cs)
  obtain now r where c: "c = (now, r)"
    by (cases c) auto
  from Cons.prems c have "throttled MIN_TIME_BETWEEN_UPDATES now (throttle d)"
    by (simp add: throttled_def assms(1))
  then have "SleepIQData_update now r d = (Inr (), d, [])"
    by (rule update_swallowed)
  moreover from Cons have "run_updates cs d = (d, replicate (length cs) [])"
    by simp
  ultimately show ?case
    by (simp add: c)
qed

lemma run_updates_spaced:
  assumes "spaced p (map fst cs)"
    and "\<And>l. throttle d = Some l \<Longrightarrow> \<exists>q. p = Some q \<and> l \<le> q"
  shows "map logins (snd (run_updates cs d)) = replicate (length cs) 1"
  using assms
proof (induction cs arbitrary: p d)
  case Nil
  show ?case by simp
next
  case (Cons c cs)
  obtain now r where c: "c = (now, r)"
    by (cases c) auto
  let ?call = "SleepIQData_update now r d"
  let ?d' = "fst (snd ?call)"
  from Cons.prems(1) c have gap: "case p of None \<Rightarrow> True | Some q \<Rightarrow> MIN_TIME_BETWEEN_UPDATES \<le> now - q"
    and rest: "spaced (Some now) (map fst cs)"
    by simp_all
  have open_gate: "\<not> throttled MIN_TIME_BETWEEN_UPDATES now (throttle d)"
  proof (cases "throttle d")
    case None
    then show ?thesis by (simp add: throttled_def)
  next
    case (Some l)
    from Cons.prems(2) [OF this] obtain q where "p = Some q" "l \<le> q"
      by blast
    with gap Some show ?thesis
      by (simp add: throttled_def)
  qed
  note through = update_let_through [OF open_gate, of r]
  have inv: "\<exists>q. Some now = Some q \<and> l \<le> q" if l: "throttle ?d' = Some l" for l
  proof -
    from through(2) l consider "l = now" | "throttle d = Some l"
      by auto
    then show ?thesis
    proof cases
      case 1
      then show ?thesis by simp
    next
      case 2
      from Cons.prems(2) [OF this] obtain q where "p = Some q" "l \<le> q"
        by blast
      with gap MIN_TIME_nonneg show ?thesis
        by simp
    qed
  qed
  from Cons.IH [OF rest inv]
  have "map logins (snd (run_updates cs ?d')) = replicate (length cs) 1"
    by blast
  with through(1) show ?case
    by (auto simp: c split: prod.splits)
qed
lemma first_fetch:
  "SleepIQData_update 0 reply_ok new_cache
     = (Inr (), cache_abc123, [Login, BedsWithSleeperStatus, LogDebug ''Connected to SleepIQ.''])"
  by (simp add: SleepIQData_update_def Throttle_def throttled_def new_cache_def
      SleepIQData_update_body_def client_calls_def reply_ok_def update_finally_def
      cache_abc123_def bed_abc123_def)

lemma later_fetch:
  assumes "MIN_TIME_BETWEEN_UPDATES \<le> now"
  shows "SleepIQData_update now reply_ok cache_abc123
     = (Inr (), cache_abc123\<lparr>throttle := Some now\<rparr>, [Login, BedsWithSleeperStatus])"
  using assms
  by (simp add: SleepIQData_update_def Throttle_def throttled_def
      SleepIQData_update_body_def client_calls_def reply_ok_def update_finally_def
      cache_abc123_def bed_abc123_def)

lemma later_refused:
  assumes "MIN_TIME_BETWEEN_UPDATES \<le> now"
  shows "SleepIQData_update now reply_refused cache_abc123
     = (Inl (ConnectionError ''refused''), cache_abc123\<lparr>beds := Map.empty\<rparr>, [Login])"
  using assms
  by (simp add: SleepIQData_update_def Throttle_def throttled_def
      SleepIQData_update_body_def client_calls_def reply_refused_def update_finally_def
      cache_abc123_def)

lemma seconds_less [simp]:
  "(timedelta_seconds a < timedelta_seconds b) = (a < b)"
  "(timedelta_seconds a \<le> timedelta_seconds b) = (a \<le> b)"
  "timedelta_seconds a - timedelta_seconds b = timedelta_seconds (a - b)"
  "timedelta_seconds 0 = 0"
  by (simp_all add: timedelta_seconds_def algebra_simps)

text \<open>
  C3, as the code has it. A call that went to the vendor and returned opens a window
  of 30 seconds: every call in the window, however many there are, is swallowed and
  leaves the cache, its bed mapping included, as it is, so of the opening call and
  the calls in its window only the opening call logs in. In a sequence of calls spaced
  at least 30 seconds apart, the first of them at least 30 seconds after the last
  call that returned, each call logs in exactly once.
\<close>

theorem update_throttle_sequences:
  assumes "SleepIQData_update t0 r0 d = (Inr v, d1, ev0)"
    and "\<not> throttled MIN_TIME_BETWEEN_UPDATES t0 (throttle d)"
    and "\<forall>c \<in> set near. fst c - t0 < MIN_TIME_BETWEEN_UPDATES"
    and "spaced (throttle d') (map fst far)"
  shows "logins ev0 = 1
       \<and> run_updates near d1 = (d1, replicate (length near) [])
       \<and> beds (fst (run_updates near d1)) = beds d1
       \<and> map logins (snd (run_updates ((t0, r0) # near) d)) = 1 # replicate (length near) 0
       \<and> map logins (snd (run_updates far d')) = replicate (length far) 1"
proof -
  note through = update_let_through [OF assms(2), of r0]
  from through(1) assms(1) have one: "logins ev0 = 1"
    by simp
  from through(4) [of v] assms(1) have "throttle d1 = Some t0"
    by simp
  from run_updates_window [OF this assms(3)]
  have window: "run_updates near d1 = (d1, replicate (length near) [])" .
  have "map logins (snd (run_updates ((t0, r0) # near) d)) = 1 # replicate (length near) 0"
    using assms(1) window one by (simp add: logins_def)
  moreover have "map logins (snd (run_updates far d')) = replicate (length far) 1"
    using assms(4) by (rule run_updates_spaced) simp
  ultimately show ?thesis
    using one window by simp
qed

theorem update_throttle_sequences_witness:
  "\<not> throttled MIN_TIME_BETWEEN_UPDATES 0 (throttle new_cache)
   \<and> timedelta_seconds 10 - 0 < MIN_TIME_BETWEEN_UPDATES
   \<and> timedelta_seconds 29 - 0 < MIN_TIME_BETWEEN_UPDATES
   \<and> spaced (throttle cache_abc123)
        (map fst [(timedelta_seconds 30, reply_refused), (timedelta_seconds 60, reply_ok)])
   \<and> run_updates [(timedelta_seconds 10, reply_bed_removed), (timedelta_seconds 29, reply_refused)]
        cache_abc123 = (cache_abc123, [[], []])
   \<and> map logins (snd (run_updates
        [(0, reply_ok), (timedelta_seconds 10, reply_bed_removed), (timedelta_seconds 29, reply_refused)]
        new_cache)) = [1, 0, 0]
   \<and> map logins (snd (run_updates
        [(timedelta_seconds 30, reply_refused), (timedelta_seconds 60, reply_ok)] cache_abc123))
       = [1, 1]"
proof -
  let ?near = "[(timedelta_seconds 10, reply_bed_removed), (timedelta_seconds 29, reply_refused)]"
  let ?far = "[(timedelta_seconds 30, reply_refused), (timedelta_seconds 60, reply_ok)]"
  have h2: "\<not> throttled MIN_TIME_BETWEEN_UPDATES 0 (throttle new_cache)"
    by (simp add: throttled_def new_cache_def)
  have a: "timedelta_seconds 10 - 0 < MIN_TIME_BETWEEN_UPDATES"
    and b: "timedelta_seconds 29 - 0 < MIN_TIME_BETWEEN_UPDATES"
    by (simp_all add: MIN_TIME_BETWEEN_UPDATES_def)
  then have h3: "\<forall>c \<in> set ?near. fst c - 0 < MIN_TIME_BETWEEN_UPDATES"
    by simp
  have h4: "spaced (throttle cache_abc123) (map fst ?far)"
    by (simp add: cache_abc123_def MIN_TIME_BETWEEN_UPDATES_def)
  from update_throttle_sequences [OF first_fetch h2 h3 h4] h2 a b h4 show ?thesis
    by simp
qed

text \<open>
  C3 as stated fails twice. Three calls 20 seconds apart, all returning: the third is
  40 seconds after the only call that went through, and logs in again. Two calls 10
  seconds apart, the first of which raises: the failure opens no window, and the second
  logs in again and replaces the bed mapping.
\<close>

theorem update_throttle_counterexample:
  "map logins (snd (run_updates
      [(0, reply_ok), (timedelta_seconds 20, reply_ok), (timedelta_seconds 40, reply_ok)]
      new_cache)) = [1, 0, 1]
   \<and> map logins (snd (run_updates
      [(timedelta_seconds 40, reply_refused), (timedelta_seconds 50, reply_ok)]
      cache_abc123)) = [1, 1]
   \<and> beds (fst (run_updates [(timedelta_seconds 40, reply_refused)] cache_abc123)) ''abc123''
       = None
   \<and> beds (fst (run_updates
      [(timedelta_seconds 40, reply_refused), (timedelta_seconds 50, reply_ok)]
      cache_abc123)) ''abc123'' = Some bed_abc123"
proof -
  have swallowed: "SleepIQData_update (timedelta_seconds 20) reply_ok cache_abc123
      = (Inr (), cache_abc123, [])"
    by (rule update_swallowed)
      (simp add: throttled_def cache_abc123_def MIN_TIME_BETWEEN_UPDATES_def)
  have third: "SleepIQData_update (timedelta_seconds 40) reply_ok cache_abc123
      = (Inr (), cache_abc123\<lparr>throttle := Some (timedelta_seconds 40)\<rparr>,
         [Login, BedsWithSleeperStatus])"
    by (rule later_fetch) (simp add: MIN_TIME_BETWEEN_UPDATES_def)
  have failed: "SleepIQData_update (timedelta_seconds 40) reply_refused cache_abc123
      = (Inl (ConnectionError ''refused''), cache_abc123\<lparr>beds := Map.empty\<rparr>, [Login])"
    by (rule later_refused) (simp add: MIN_TIME_BETWEEN_UPDATES_def)
  have again: "SleepIQData_update (timedelta_seconds 50) reply_ok (cache_abc123\<lparr>beds := Map.empty\<rparr>)
      = (Inr (), cache_abc123\<lparr>throttle := Some (timedelta_seconds 50)\<rparr>,
         [Login, BedsWithSleeperStatus, LogDebug ''Connected to SleepIQ.''])"
    by (simp add: SleepIQData_update_def Throttle_def throttled_def
      SleepIQData_update_body_def client_calls_def reply_ok_def update_finally_def
      cache_abc123_def bed_abc123_def MIN_TIME_BETWEEN_UPDATES_def)
  have "beds (cache_abc123\<lparr>throttle := Some (timedelta_seconds 50)\<rparr>) ''abc123'' = Some bed_abc123"
    by (simp add: cache_abc123_def)
  then show ?thesis
    by (simp add: first_fetch swallowed third failed again logins_def)
qed

subsection \<open>Startup\<close>

lemma init_events:
  "snd (SleepIQData_init t0 r0 c) = snd (snd (SleepIQData_update_body r0 \<lparr>client = c, beds = Map.empty, throttle = None\<rparr>))"
proof -
  let ?d0 = "\<lparr>client = c, beds = Map.empty, throttle = None\<rparr>"
  have "\<not> throttled MIN_TIME_BETWEEN_UPDATES t0 (throttle ?d0)"
    by (simp add: throttled_def)
  from update_let_through(3) [OF this, of r0] show ?thesis
    by (auto simp: SleepIQData_init_def split: prod.splits sum.splits)
qed

lemma init_raises:
  assumes "fst (client_calls r0) = Inl e"
  shows "SleepIQData_init t0 r0 c
     = (Inl (fst (update_except e \<lparr>client = c, beds = Map.empty, throttle = None\<rparr>)),
        snd (snd (client_calls r0)) @ update_finally (fst (snd (client_calls r0))))"
proof -
  let ?d0 = "\<lparr>client = c, beds = Map.empty, throttle = None\<rparr>"
  note body = update_body_raises [OF assms, of ?d0]
  have "\<not> throttled MIN_TIME_BETWEEN_UPDATES t0 (throttle ?d0)"
    by (simp add: throttled_def)
  then have "SleepIQData_update t0 r0 ?d0 = SleepIQData_update_body r0 ?d0"
    unfolding SleepIQData_update_def using body by (intro Throttle_raises) simp_all
  with body show ?thesis
    by (simp add: SleepIQData_init_def)
qed

lemma init_returns:
  assumes "fst (client_calls r0) = Inr bs"
  shows "SleepIQData_init t0 r0 c
     = (Inr \<lparr>client = c, beds = beds_by_id Map.empty bs, throttle = Some t0\<rparr>,
        snd (snd (client_calls r0)) @ update_finally (fst (snd (client_calls r0)))
          @ [LogDebug ''Connected to SleepIQ.''])"
proof -
  let ?d0 = "\<lparr>client = c, beds = Map.empty, throttle = None\<rparr>"
  note body = update_body_returns [OF assms, of ?d0]
  have "\<not> throttled MIN_TIME_BETWEEN_UPDATES t0 (throttle ?d0)"
    by (simp add: throttled_def)
  from Throttle_returns [of MIN_TIME_BETWEEN_UPDATES t0 ?d0 "SleepIQData_update_body r0", OF this body]
  show ?thesis
    by (simp add: SleepIQData_init_def SleepIQData_update_def)
qed

text \<open>
  C9. The constructor of the cache logs in exactly once, and returns an object exactly
  when the vendor calls return. When the explicit update of the startup routine comes
  less than 30 seconds after the constructor and the routine returns, that update is
  swallowed: the global is the constructed cache, the events are those of the
  constructor followed by the two platform loads, and among them is one login and one
  fetch.
\<close>

theorem setup_fetches_once:
  assumes "t1 - t0 < MIN_TIME_BETWEEN_UPDATES"
    and "sleepiq_setup t0 r0 t1 r1 cfg DATA = (Inr ok, DATA', ev)"
  shows "logins (snd (SleepIQData_init t0 r0 c)) = 1
       \<and> (\<exists>d. fst (SleepIQData_init t0 r0 c) = Inr d) = (\<exists>bs. fst (client_calls r0) = Inr bs)
       \<and> ok
       \<and> fst (SleepIQData_init t0 r0 \<lparr>username = conf_username cfg, password = conf_password cfg\<rparr>)
           = Inr (the DATA')
       \<and> DATA' \<noteq> None
       \<and> SleepIQData_update t1 r1 (the DATA') = (Inr (), the DATA', [])
       \<and> ev = snd (SleepIQData_init t0 r0 \<lparr>username = conf_username cfg, password = conf_password cfg\<rparr>)
               @ [LoadPlatform ''sensor'' DOMAIN, LoadPlatform ''binary_sensor'' DOMAIN]
       \<and> logins ev = 1
       \<and> count_list ev BedsWithSleeperStatus = 1"
proof -
  let ?c = "\<lparr>username = conf_username cfg, password = conf_password cfg\<rparr>"
  have one: "logins (snd (SleepIQData_init t0 r0 c)) = 1" for c
    by (simp add: init_events logins_update_body)
  have iff: "(\<exists>d. fst (SleepIQData_init t0 r0 c) = Inr d) = (\<exists>bs. fst (client_calls r0) = Inr bs)"
  proof (cases "fst (client_calls r0)")
    case (Inl e)
    from init_raises [OF this] show ?thesis
      by (simp add: Inl)
  next
    case (Inr bs)
    from init_returns [OF this] show ?thesis
      by (simp add: Inr)
  qed
  obtain bs where bs: "fst (client_calls r0) = Inr bs"
  proof (cases "fst (client_calls r0)")
    case (Inl e)
    from init_raises [OF this, of t0 ?c] assms(2) have False
      by (simp add: sleepiq_setup_def)
    then show ?thesis ..
  next
    case (Inr bs)
    with that show ?thesis .
  qed
  let ?d = "\<lparr>client = ?c, beds = beds_by_id Map.empty bs, throttle = Some t0\<rparr>"
  note init = init_returns [OF bs, of t0 ?c]
  have "throttled MIN_TIME_BETWEEN_UPDATES t1 (throttle ?d)"
    using assms(1) by (simp add: throttled_def)
  then have second: "SleepIQData_update t1 r1 ?d = (Inr (), ?d, [])"
    by (rule update_swallowed)
  from assms(2) init second have ok: "ok" and data: "DATA' = Some ?d"
    and ev: "ev = snd (SleepIQData_init t0 r0 ?c)
                  @ [LoadPlatform ''sensor'' DOMAIN, LoadPlatform ''binary_sensor'' DOMAIN]"
    by (simp_all add: sleepiq_setup_def)
  have calls: "snd (snd (client_calls r0)) = [Login, BedsWithSleeperStatus]"
    using bs by (simp add: client_calls_def split: option.splits)
  have fetches: "count_list ev BedsWithSleeperStatus = 1"
    unfolding ev init by (simp add: calls update_finally_def)
  have "logins ev = 1"
    unfolding ev using one [of ?c] by (simp add: logins_append) (simp add: logins_def)
  with one [of c] iff ok data ev second init fetches show ?thesis
    by simp
qed

theorem setup_fetches_once_witness:
  "timedelta_seconds 1 - 0 < MIN_TIME_BETWEEN_UPDATES
   \<and> sleepiq_setup 0 reply_ok (timedelta_seconds 1) reply_refused some_config None
       = (Inr True, Some cache_abc123,
          [Login, BedsWithSleeperStatus, LogDebug ''Connected to SleepIQ.'',
           LoadPlatform ''sensor'' DOMAIN, LoadPlatform ''binary_sensor'' DOMAIN])
   \<and> SleepIQData_update (timedelta_seconds 1) reply_refused cache_abc123
       = (Inr (), cache_abc123, [])
   \<and> logins [Login, BedsWithSleeperStatus, LogDebug ''Connected to SleepIQ.'',
              LoadPlatform ''sensor'' DOMAIN, LoadPlatform ''binary_sensor'' DOMAIN] = 1"
proof -
  have h1: "timedelta_seconds 1 - 0 < MIN_TIME_BETWEEN_UPDATES"
    by (simp add: MIN_TIME_BETWEEN_UPDATES_def)
  have calls: "fst (client_calls reply_ok) = Inr [bed_abc123]"
    by (simp add: client_calls_def reply_ok_def)
  have init: "SleepIQData_init 0 reply_ok
        \<lparr>username = conf_username some_config, password = conf_password some_config\<rparr>
      = (Inr cache_abc123, [Login, BedsWithSleeperStatus, LogDebug ''Connected to SleepIQ.''])"
    unfolding init_returns [OF calls]
    by (simp add: client_calls_def reply_ok_def update_finally_def cache_abc123_def
        some_client_def some_config_def bed_abc123_def)
  have second: "SleepIQData_update (timedelta_seconds 1) reply_refused cache_abc123
      = (Inr (), cache_abc123, [])"
    by (rule update_swallowed)
      (simp add: throttled_def cache_abc123_def MIN_TIME_BETWEEN_UPDATES_def)
  have h2: "sleepiq_setup 0 reply_ok (timedelta_seconds 1) reply_refused some_config None
       = (Inr True, Some cache_abc123,
          [Login, BedsWithSleeperStatus, LogDebug ''Connected to SleepIQ.'',
           LoadPlatform ''sensor'' DOMAIN, LoadPlatform ''binary_sensor'' DOMAIN])"
    by (simp add: sleepiq_setup_def init second)
  from setup_fetches_once [OF h1 h2] h1 h2 second show ?thesis
    by simp
qed




end
